theory Spec2Isabelle
  imports Main "HOL-Library.Sublist"
begin

section \<open>Strings and numbers of the host language\<close>

text \<open>
  Strings are lists of characters. \<open>is_space\<close> is the ASCII part of what
  \<open>String.prototype.trim\<close> and the regular expression class \<open>\s\<close> remove,
  \<open>str_includes s x\<close> is \<open>s.includes(x)\<close>, \<open>indexOf\<close> is \<open>Array.prototype.indexOf\<close>
  with its \<open>-1\<close> for a missing element.
\<close>

definition is_space :: "char \<Rightarrow> bool" where
  "is_space c = (c \<in> set [CHR 0x09, CHR 0x0A, CHR 0x0B, CHR 0x0C, CHR 0x0D, CHR '' ''])"

definition trim :: "string \<Rightarrow> string" where
  "trim s = rev (dropWhile is_space (rev (dropWhile is_space s)))"

definition str_includes :: "string \<Rightarrow> string \<Rightarrow> bool" where
  "str_includes s x = sublist x s"

fun indexOf :: "'a list \<Rightarrow> 'a \<Rightarrow> int" where
  "indexOf [] v = - 1"
| "indexOf (x # xs) v =
     (if x = v then 0 else (let i = indexOf xs v in if i = - 1 then - 1 else i + 1))"

text \<open>
  \<open>string_of_nat\<close> and \<open>string_of_int\<close> are the decimal texts that \<open>String(n)\<close> and a
  template literal give for an integer.
\<close>

definition digit_char :: "nat \<Rightarrow> char" where
  "digit_char d = ''0123456789'' ! d"

function string_of_nat :: "nat \<Rightarrow> string" where
  "string_of_nat n =
     (if n < 10 then [digit_char n]
      else string_of_nat (n div 10) @ [digit_char (n mod 10)])"
  by pat_completeness auto
termination
  by (relation "measure id") auto

declare string_of_nat.simps [simp del]

definition string_of_int :: "int \<Rightarrow> string" where
  "string_of_int i = (if i < 0 then CHR ''-'' # string_of_nat (nat (- i)) else string_of_nat (nat i))"

datatype error = Error string

section \<open>The retrying supervisor (\<open>ExecUnity\<close> with \<open>tryCount\<close>)\<close>

text \<open>
  \<open>getLogFilePath\<close> throws when the flag is absent and otherwise returns the element
  after it, which is \<open>undefined\<close> (here \<open>None\<close>) when the flag is the last element.
\<close>

definition getLogFilePath :: "string list \<Rightarrow> error + string option" where
  "getLogFilePath args =
     (let logFileIndex = indexOf args ''-logFile'' in
      if logFileIndex = - 1 then Inl (Error ''Missing -logFile argument'')
      else if nat (logFileIndex + 1) < length args then Inr (Some (args ! nat (logFileIndex + 1)))
      else Inr None)"

definition fp_overflow :: string where
  "fp_overflow = ''Unhandled Exception: System.OverflowException: Number overflow.''"

definition fp_oom :: string where
  "fp_oom = ''Unhandled Exception: System.OutOfMemoryException: Out of memory''"

text \<open>
  The \<open>errline\<close> listener: it trims the line, ignores an empty one, and sets the flag
  \<open>flaky\<close> when the line includes one of the two texts. The flag is never reset.
  \<open>scan_errlines\<close> runs the listener over the lines of the error stream of one launch.
\<close>

definition errline :: "string \<Rightarrow> bool \<Rightarrow> bool" where
  "errline data flaky =
     (let line = trim data in
      if line \<noteq> [] then
        (if str_includes line fp_overflow \<or> str_includes line fp_oom then True else flaky)
      else flaky)"

definition scan_errlines :: "string list \<Rightarrow> bool" where
  "scan_errlines ls = foldl (\<lambda>flaky data. errline data flaky) False ls"

text \<open>
  What one launch does is decided outside the program: the search for the wrapper
  (\<open>io.which\<close>) or \<open>exec.exec\<close> itself may throw; otherwise the process ends with the
  lines it printed on both streams and an exit code, and \<open>cancelled\<close> tells whether a
  signal handler has set \<open>isCancelled\<close> by then. The environment gives the launch made
  with counter \<open>tryCount\<close>.
\<close>

datatype attempt =
    WhichThrows string
  | ExecThrows string
  | Exited (stdlines: "string list") (errlines: "string list") (exitCode: int) (cancelled: bool)

text \<open>
  \<open>ExecUnity_retry\<close> returns the result of the call and the values of \<open>tryCount\<close> with
  which \<open>exec.exec\<close> was called, in order: one entry for each launch. The recursion is
  the source's own; it ends because a call is only made while \<open>tryCount \<le> 25\<close>.
  Removing the lock file (\<open>tryKillPid\<close>, which returns nothing and throws nothing in
  this version) and the lines passed to \<open>core.info\<close> do not influence the control flow
  and are not recorded.
\<close>

function ExecUnity_retry :: "string list \<Rightarrow> (nat \<Rightarrow> attempt) \<Rightarrow> nat \<Rightarrow> (error + unit) \<times> nat list" where
  "ExecUnity_retry args env tryCount =
     (case getLogFilePath args of
        Inl e \<Rightarrow> (Inl e, [])
      | Inr logPath \<Rightarrow>
         (case env tryCount of
            WhichThrows m \<Rightarrow> (Inl (Error m), [])
          | ExecThrows m \<Rightarrow> (Inl (Error m), [tryCount])
          | Exited out err code isCancelled \<Rightarrow>
              if \<not> isCancelled then
                if scan_errlines err then
                  if tryCount \<le> 25 then
                    (let r = ExecUnity_retry args env (tryCount + 1)
                     in (fst r, tryCount # snd r))
                  else (Inl (Error ''Unity crashed in a flaky manner too many times''), [tryCount])
                else if code \<noteq> 0 then
                  (Inl (Error (''Unity failed with exit code '' @ string_of_int code)), [tryCount])
                else (Inr (), [tryCount])
              else (Inr (), [tryCount])))"
  by pat_completeness auto
termination
  by (relation "measure (\<lambda>(args, env, tryCount). 26 - tryCount)") auto

fun flaky_attempt :: "attempt \<Rightarrow> bool" where
  "flaky_attempt (Exited out err code isCancelled) = (\<not> isCancelled \<and> scan_errlines err)"
| "flaky_attempt _ = False"

text \<open>Environments used as concrete inputs below.\<close>

definition always_flaky :: "nat \<Rightarrow> attempt" where
  "always_flaky n = Exited [] [fp_overflow] 1 False"

definition crash_text_exit_zero :: "nat \<Rightarrow> attempt" where
  "crash_text_exit_zero n =
     (if n = 1 then Exited [] [''  '' @ fp_oom] 0 False else Exited [] [] 0 False)"



definition clean_exit :: "nat \<Rightarrow> attempt" where
  "clean_exit n = Exited [fp_overflow, ''done''] [''warning''] 0 False"

definition crash_text_always_exit_zero :: "nat \<Rightarrow> attempt" where
  "crash_text_always_exit_zero n = Exited [] [fp_oom] 0 False"

section \<open>The utilities: lock file, arguments, process list\<close>

subsection \<open>Numbers, files and the record of what happens\<close>

text \<open>
  A number of the host language is \<open>NaN\<close> or an integer value (process ids are
  integers). \<open>js_eq\<close> is the strict equality \<open>===\<close>, which \<open>NaN\<close> never satisfies;
  \<open>truthy\<close> is what \<open>if (killedPid)\<close> tests on a number or \<open>null\<close>.
\<close>

datatype jsnum = NaN | Num int

fun js_eq :: "jsnum \<Rightarrow> jsnum \<Rightarrow> bool" where
  "js_eq (Num a) (Num b) = (a = b)"
| "js_eq _ _ = False"

fun truthy :: "jsnum option \<Rightarrow> bool" where
  "truthy None = False"
| "truthy (Some NaN) = False"
| "truthy (Some (Num i)) = (i \<noteq> 0)"

fun show_jsnum :: "jsnum \<Rightarrow> string" where
  "show_jsnum NaN = ''NaN''"
| "show_jsnum (Num i) = string_of_int i"

text \<open>
  \<open>parseInt\<close> without a radix: leading white space is skipped, a sign is read, a
  prefix \<open>0x\<close> selects radix 16, the longest run of digits is the value, and no
  digit at all gives \<open>NaN\<close>.
\<close>

definition digit_val :: "char \<Rightarrow> nat" where
  "digit_val c =
     (let k = (of_char c :: nat) in
      if 48 \<le> k \<and> k \<le> 57 then k - 48
      else if 97 \<le> k \<and> k \<le> 122 then k - 87
      else if 65 \<le> k \<and> k \<le> 90 then k - 55
      else 36)"

definition parseInt :: "string \<Rightarrow> jsnum" where
  "parseInt s =
     (let s1 = dropWhile is_space s;
          neg = (take 1 s1 = ''-'');
          s2 = (if take 1 s1 = ''-'' \<or> take 1 s1 = ''+'' then drop 1 s1 else s1);
          hex = (take 2 s2 = ''0x'' \<or> take 2 s2 = ''0X'');
          radix = (if hex then 16 else 10);
          s3 = (if hex then drop 2 s2 else s2);
          ds = takeWhile (\<lambda>c. digit_val c < radix) s3;
          v = int (foldl (\<lambda>a c. a * radix + digit_val c) 0 ds)
      in if ds = [] then NaN else Num (if neg then - v else v))"

text \<open>
  The lock file is absent, or present with its text, or present but refused to this
  process (\<open>fs.promises.access\<close> and \<open>fs.promises.open\<close> reject, \<open>writeFileSync\<close>
  throws). Reading, closing and unlinking a file that was opened succeed.
  Everything the supervisor does to the outside is appended to \<open>trace\<close>, in order.
  \<open>isCancelled\<close> and \<open>unityProcInfo\<close> are the two variables of \<open>ExecUnity\<close> that its
  callbacks write.
\<close>

datatype file_state = Absent | Inaccessible | Content string

datatype level = Debug | Info | Warning | Failure

datatype event =
    Spawned nat
  | KillSent int
  | LockRemoved
  | LockWritten string
  | Logged level string
  | StartGroup string
  | EndGroup
  | Stdout "nat list"

record ProcInfo =
  name :: string
  pid :: jsnum
  ppid :: jsnum

record world =
  pid_dir :: bool
  pid_file :: file_state
  trace :: "event list"
  isCancelled :: bool
  unityProcInfo :: "ProcInfo option"

datatype tail_event = Append string | Poll | PollThrows | CloseThrows

datatype proc_end = Exit "int option" | ProcError string | NeverEnds | Unheard

datatype signal_at = NoSignal | AtWhich | AtAccess | WhileWaiting | WhileTailing

text \<open>
  What the outside decides during one run: the platform, the search for
  \<open>xvfb-run\<close> (\<open>None\<close> when \<open>io.which\<close> throws), the pid of the spawned process
  (\<open>None\<close> when the child has none), the supervisor's own pid, what \<open>process.kill\<close>
  does for a pid (\<open>None\<close> when the signal is sent, otherwise the code of the error
  thrown), the output of the process listing (\<open>None\<close> when the command fails), the
  conversion \<open>Number\<close>, whether the log file exists at the n-th look, what the writer
  of the log and the polls of the tailer do until the tailer is told to stop, how the
  process ends, and the point at which a termination signal is handled.
  \<open>exec\<close> registers its listeners for the \<open>exit\<close> and \<open>error\<close> events of the
  process only after the log file has appeared; \<open>Unheard\<close> is the process whose event
  was emitted before that, while \<open>exec\<close> was still waiting in the launch or for the
  log file, and is therefore never received. A signal can be handled during the
  search for \<open>xvfb-run\<close>, during the check of the lock file, during the wait for the
  log file, and after the listeners are registered.
\<close>

record env =
  platform :: string
  which_xvfb :: "string option"
  spawn_pid :: "nat option"
  self_pid :: nat
  kill_result :: "int \<Rightarrow> string option"
  ps_output :: "string option"
  Number :: "string \<Rightarrow> jsnum"
  log_exists :: "nat \<Rightarrow> bool"
  schedule :: "tail_event list"
  proc_end :: proc_end
  signal :: signal_at

definition say :: "level \<Rightarrow> string \<Rightarrow> world \<Rightarrow> world" where
  "say lvl msg w = w\<lparr>trace := trace w @ [Logged lvl msg]\<rparr>"

text \<open>
  \<open>process.kill(pid)\<close> throws a type error before reaching the system when the pid
  is not a 32-bit integer; otherwise the signal is attempted, and the system may
  refuse it.
\<close>

definition process_kill :: "env \<Rightarrow> jsnum \<Rightarrow> world \<Rightarrow> string option \<times> world" where
  "process_kill e p w =
     (case p of
        NaN \<Rightarrow> (Some ''ERR_INVALID_ARG_TYPE'', w)
      | Num i \<Rightarrow>
          if i < - 2147483648 \<or> 2147483647 < i then (Some ''ERR_INVALID_ARG_TYPE'', w)
          else (kill_result e i, w\<lparr>trace := trace w @ [KillSent i]\<rparr>))"

subsection \<open>\<open>tryKillPid\<close>\<close>

text \<open>
  The body of the outer \<open>try\<close>: it returns early with \<open>null\<close> when the file does not
  exist, throws when the file cannot be opened, and otherwise reads the pid, attempts
  the kill, reports an error of the kill unless its code is \<open>ENOENT\<close> or \<open>ESRCH\<close>, and
  in the \<open>finally\<close> closes and unlinks the file. \<open>tryKillPid\<close> ignores whatever the
  body throws and returns the variable \<open>pid\<close>, which is still \<open>null\<close> then.
\<close>

definition tryKillPid_body :: "env \<Rightarrow> world \<Rightarrow> (error + jsnum option) \<times> world" where
  "tryKillPid_body e w =
     (case pid_file w of
        Absent \<Rightarrow> (Inr None, say Debug ''PID file does not exist'' w)
      | Inaccessible \<Rightarrow> (Inl (Error ''EACCES''), w)
      | Content text \<Rightarrow>
          (let p = parseInt text;
               w1 = say Debug (''Killing process pid: '' @ show_jsnum p) w;
               r = process_kill e p w1;
               w2 = (case fst r of
                       None \<Rightarrow> snd r
                     | Some errorCode \<Rightarrow>
                         if errorCode \<noteq> ''ENOENT'' \<and> errorCode \<noteq> ''ESRCH''
                         then say Failure (''Failed to kill process: '' @ errorCode) (snd r)
                         else snd r)
           in (Inr (Some p), w2\<lparr>pid_file := Absent, trace := trace w2 @ [LockRemoved]\<rparr>)))"

definition tryKillPid :: "env \<Rightarrow> world \<Rightarrow> jsnum option \<times> world" where
  "tryKillPid e w =
     (case tryKillPid_body e w of
        (Inr p, w') \<Rightarrow> (p, w')
      | (Inl err, w') \<Rightarrow> (None, w'))"

subsection \<open>\<open>getArgumentValue\<close>\<close>

definition getArgumentValue :: "string \<Rightarrow> string list \<Rightarrow> error + string" where
  "getArgumentValue v args =
     (let index = indexOf args v in
      if index = - 1 \<or> index = int (length args) - 1
      then Inl (Error (''Missing '' @ v @ '' argument''))
      else Inr (args ! nat (index + 1)))"

subsection \<open>\<open>listProcesses\<close> and \<open>cleanupProcessOrphans\<close>\<close>

definition systemProcessNames :: "string list" where
  "systemProcessNames =
     [''System'', ''Idle'', ''Spotlight'', ''svchost.exe'', ''explorer.exe'', ''services.exe'',
      ''wininit.exe'', ''winlogon.exe'', ''lsass.exe'', ''csrss.exe'', ''smss.exe'', ''init'',
      ''kthreadd'', ''kworker'', ''systemd'', ''launchd'', ''kernel_task'', ''Finder'', ''Dock'',
      ''WindowServer'', ''logd'', ''securityd'', ''notifyd'', ''unattended-upgrades'', ''cron'',
      ''atd'', ''dbus-daemon'']"

definition lower_char :: "char \<Rightarrow> char" where
  "lower_char c =
     (let k = (of_char c :: nat) in if 65 \<le> k \<and> k \<le> 90 then char_of (k + 32) else c)"

definition toLowerCase :: "string \<Rightarrow> string" where
  "toLowerCase s = map lower_char s"

definition filterSystem :: "string \<Rightarrow> bool" where
  "filterSystem nm =
     (\<not> list_ex (\<lambda>sysName. nm \<noteq> [] \<and> str_includes (toLowerCase nm) (toLowerCase sysName))
          systemProcessNames)"

text \<open>
  \<open>split_char\<close> is \<open>split\<close> at a single character; \<open>split_lines\<close> is
  \<open>split(/\r?\n/)\<close>: the text is cut at every line feed, and a carriage return that
  stands directly before the line feed goes with it.
\<close>

fun split_char :: "char \<Rightarrow> string \<Rightarrow> string list" where
  "split_char d [] = [[]]"
| "split_char d (c # cs) =
     (if c = d then [] # split_char d cs
      else (case split_char d cs of
              [] \<Rightarrow> [[c]]
            | l # ls \<Rightarrow> (c # l) # ls))"

definition chop_cr :: "string \<Rightarrow> string" where
  "chop_cr l = (if l \<noteq> [] \<and> last l = CHR 0x0D then butlast l else l)"

definition split_lines :: "string \<Rightarrow> string list" where
  "split_lines s =
     (let ps = split_char (CHR 0x0A) s in map chop_cr (butlast ps) @ [last ps])"

text \<open>
  The match of \<open>/^(\d+)\s+(\d+)\s+(.*)$/\<close>: digits, white space, digits, white space
  and a rest without line terminators; the three groups are returned.
\<close>

definition is_digit :: "char \<Rightarrow> bool" where
  "is_digit c = (48 \<le> (of_char c :: nat) \<and> (of_char c :: nat) \<le> 57)"

definition ps_match :: "string \<Rightarrow> (string \<times> string \<times> string) option" where
  "ps_match l =
     (let d1 = takeWhile is_digit l; r1 = dropWhile is_digit l;
          s1 = takeWhile is_space r1; r2 = dropWhile is_space r1;
          d2 = takeWhile is_digit r2; r3 = dropWhile is_digit r2;
          s2 = takeWhile is_space r3; r4 = dropWhile is_space r3
      in if d1 \<noteq> [] \<and> s1 \<noteq> [] \<and> d2 \<noteq> [] \<and> s2 \<noteq> []
            \<and> list_all (\<lambda>c. c \<noteq> CHR 0x0A \<and> c \<noteq> CHR 0x0D) r4
         then Some (d1, d2, r4) else None)"

text \<open>
  One line of either listing, before the filter on system names: the record it
  denotes, or nothing when the line does not have the format.
\<close>

definition parse_win :: "env \<Rightarrow> string \<Rightarrow> ProcInfo option" where
  "parse_win e l =
     (let parts = split_char (CHR '','') l in
      if length parts \<ge> 3 \<and> Number e (parts ! 0) \<noteq> NaN \<and> Number e (parts ! 1) \<noteq> NaN
      then Some \<lparr>name = parts ! 2, pid = Number e (parts ! 0), ppid = Number e (parts ! 1)\<rparr>
      else None)"

definition parse_unix :: "env \<Rightarrow> string \<Rightarrow> ProcInfo option" where
  "parse_unix e l =
     (case ps_match (trim l) of
        Some (a, b, c) \<Rightarrow> Some \<lparr>name = c, pid = Number e a, ppid = Number e b\<rparr>
      | None \<Rightarrow> None)"

definition listed_lines :: "env \<Rightarrow> string \<Rightarrow> string list" where
  "listed_lines e out =
     (if platform e = ''win32''
      then drop 1 (filter (\<lambda>l. trim l \<noteq> []) (split_lines out))
      else filter (\<lambda>l. trim l \<noteq> []) (drop 1 (split_lines out)))"

definition parse_line :: "env \<Rightarrow> string \<Rightarrow> ProcInfo option" where
  "parse_line e l = (if platform e = ''win32'' then parse_win e l else parse_unix e l)"

text \<open>
  The loop over the lines: each line is written to the debug log, and its record is
  pushed when the line has the format and the name passes \<open>filterSystem\<close>.
\<close>

fun collect :: "env \<Rightarrow> string list \<Rightarrow> world \<Rightarrow> ProcInfo list \<times> world" where
  "collect e [] w = ([], w)"
| "collect e (l # ls) w =
     (let w1 = say Debug l w;
          r = collect e ls w1
      in case parse_line e l of
           Some p \<Rightarrow> if filterSystem (name p) then (p # fst r, snd r) else r
         | None \<Rightarrow> r)"

definition listProcesses_body :: "env \<Rightarrow> world \<Rightarrow> (error + ProcInfo list) \<times> world" where
  "listProcesses_body e w =
     (let w1 = say Debug (if platform e = ''win32'' then ''powershell Get-CimInstance Win32_Process:''
                          else ''ps -eo pid,ppid,comm:'') w
      in case ps_output e of
           None \<Rightarrow> (Inl (Error ''Command failed''), w1)
         | Some out \<Rightarrow> (let r = collect e (listed_lines e out) w1 in (Inr (fst r), snd r)))"

definition listProcesses :: "env \<Rightarrow> world \<Rightarrow> ProcInfo list \<times> world" where
  "listProcesses e w =
     (case listProcesses_body e w of
        (Inr procs, w') \<Rightarrow> (procs, w')
      | (Inl err, w') \<Rightarrow> ([], say Failure ''Failed to list processes'' w'))"

text \<open>
  The body of the loop of \<open>cleanupProcessOrphans\<close>: a process whose parent is the
  given one is sent the signal; a kill that throws is logged, at debug level for
  \<open>ESRCH\<close> and as an error otherwise, and the loop goes on.
\<close>

definition reap_one :: "env \<Rightarrow> ProcInfo \<Rightarrow> ProcInfo \<Rightarrow> world \<Rightarrow> world" where
  "reap_one e parentProcess proc w =
     (if js_eq (ppid proc) (pid parentProcess) then
        (let r = process_kill e (pid proc) w in
         case fst r of
           None \<Rightarrow> say Info (name proc) (snd r)
         | Some errorCode \<Rightarrow>
             if errorCode = ''ESRCH'' then say Debug (name proc @ '' already exited.'') (snd r)
             else say Failure (''Failed to kill orphaned process '' @ name proc) (snd r))
      else w)"

definition cleanupProcessOrphans :: "env \<Rightarrow> ProcInfo \<Rightarrow> world \<Rightarrow> world" where
  "cleanupProcessOrphans e parentProcess w =
     (let r = listProcesses e w in
      if fst r = [] then say Debug ''No processes found to clean up.'' (snd r)
      else
        (let w1 = (snd r)\<lparr>trace := trace (snd r) @ [StartGroup ''Cleaning up orphaned processes:'']\<rparr>;
             w2 = foldl (\<lambda>w' proc. reap_one e parentProcess proc w') w1 (fst r)
         in w2\<lparr>trace := trace w2 @ [EndGroup]\<rparr>))"

section \<open>The supervisor: \<open>exec\<close> and \<open>ExecUnity\<close>\<close>

subsection \<open>The log tailer\<close>

text \<open>
  \<open>buffer.toString('utf8')\<close> decodes the bytes of one buffer by itself: a well-formed
  sequence gives its code point, and every maximal ill-formed part, also a sequence
  cut off by the end of the buffer, gives the replacement character \<open>U+FFFD\<close>. The
  decoder reads a lead byte (\<open>utf8_lead\<close>) and then the continuation bytes it
  needs, within the bounds the lead byte sets; a byte out of bounds ends the sequence
  with a replacement character and is read again as a lead byte. A text is a list of
  code points; \<open>stdout_bytes\<close> are the bytes with which \<open>process.stdout.write\<close> puts
  a text on the standard output.
\<close>

definition utf8_lead :: "nat \<Rightarrow> nat list \<times> nat \<times> nat \<times> nat \<times> nat" where
  "utf8_lead b =
     (if b \<le> 0x7F then ([b], 0, 0, 0x80, 0xBF)
      else if 0xC2 \<le> b \<and> b \<le> 0xDF then ([], 1, b mod 32, 0x80, 0xBF)
      else if 0xE0 \<le> b \<and> b \<le> 0xEF then
        ([], 2, b mod 16, if b = 0xE0 then 0xA0 else 0x80, if b = 0xED then 0x9F else 0xBF)
      else if 0xF0 \<le> b \<and> b \<le> 0xF4 then
        ([], 3, b mod 8, if b = 0xF0 then 0x90 else 0x80, if b = 0xF4 then 0x8F else 0xBF)
      else ([0xFFFD], 0, 0, 0x80, 0xBF))"

fun utf8_decode :: "nat \<times> nat \<times> nat \<times> nat \<Rightarrow> nat list \<Rightarrow> nat list" where
  "utf8_decode (needed, cp, lower, upper) [] = (if needed \<noteq> 0 then [0xFFFD] else [])"
| "utf8_decode (needed, cp, lower, upper) (b # bs) =
     (if needed = 0 then fst (utf8_lead b) @ utf8_decode (snd (utf8_lead b)) bs
      else if b < lower \<or> upper < b then
        0xFFFD # fst (utf8_lead b) @ utf8_decode (snd (utf8_lead b)) bs
      else if needed = 1 then (cp * 64 + b mod 64) # utf8_decode (0, 0, 0x80, 0xBF) bs
      else utf8_decode (needed - 1, cp * 64 + b mod 64, 0x80, 0xBF) bs)"

definition toString_utf8 :: "string \<Rightarrow> nat list" where
  "toString_utf8 buffer = utf8_decode (0, 0, 0x80, 0xBF) (map of_char buffer)"



text \<open>
  The state of \<open>tailLog\<close>: the bytes of the log file, the cursor \<open>lastSize\<close>, and the
  texts passed to \<open>process.stdout.write\<close> so far. Between two polls the writer may
  append to the file. A poll reads the size, and when the size exceeds the cursor it
  reads exactly the bytes from the cursor to the size into a buffer, writes the text
  the buffer decodes to, closes the file and moves the cursor. When \<open>statSync\<close>,
  \<open>openSync\<close> or \<open>readSync\<close> throws, the poll changes nothing; when \<open>closeSync\<close>
  throws, the text has been written and the cursor stays where it was.
  \<open>tailLog\<close> runs until \<open>logEnded\<close> is seen, which is the end of the schedule, and
  then writes a line feed.
\<close>

record tail_state =
  log_file :: string
  lastSize :: nat
  written :: "nat list list"

definition tail_poll :: "bool \<Rightarrow> tail_state \<Rightarrow> tail_state" where
  "tail_poll close_throws st =
     (let size = length (log_file st) in
      if size > lastSize st then
        (let buffer = take (size - lastSize st) (drop (lastSize st) (log_file st));
             st1 = st\<lparr>written := written st @ [toString_utf8 buffer]\<rparr>
         in if close_throws then st1 else st1\<lparr>lastSize := size\<rparr>)
      else st)"

fun tail_step :: "tail_state \<Rightarrow> tail_event \<Rightarrow> tail_state" where
  "tail_step st (Append bs) = st\<lparr>log_file := log_file st @ bs\<rparr>"
| "tail_step st Poll = tail_poll False st"
| "tail_step st PollThrows = st"
| "tail_step st CloseThrows = tail_poll True st"

definition tail_loop :: "tail_state \<Rightarrow> tail_event list \<Rightarrow> tail_state" where
  "tail_loop st evs = foldl tail_step st evs"

definition tailLog :: "tail_state \<Rightarrow> tail_event list \<Rightarrow> tail_state" where
  "tailLog st evs =
     (let st' = tail_loop st evs in st'\<lparr>written := written st' @ [[0x0A]]\<rparr>)"

definition tail_start :: tail_state where
  "tail_start = \<lparr>log_file = [], lastSize = 0, written = []\<rparr>"



subsection \<open>\<open>exec\<close>\<close>

record UnityCommand =
  editorPath :: string
  args :: "string list"

datatype 'a outcome = Hangs | Throws error | Returns 'a

text \<open>
  The listener registered for \<open>SIGINT\<close> and \<open>SIGTERM\<close> kills the process named in
  the lock file and then sets \<open>isCancelled\<close>. A signal is handled while the supervisor
  waits in an \<open>await\<close>; \<open>deliver\<close> runs the listener, as a whole, at the waiting point
  the environment names. The listener itself waits for its file operations when a
  lock file exists. During the wait for the log file and afterwards \<open>exec\<close> does not
  touch the lock file, and the flag is read only in the \<open>finally\<close> of \<open>ExecUnity\<close>, so
  that there the listener's steps can be taken together; without a lock file the
  listener returns at once. During the check of an existing lock file the listener
  and \<open>exec\<close> may both attempt the kill of the recorded process before the new pid is
  written.
\<close>

definition cancelListener :: "env \<Rightarrow> world \<Rightarrow> world" where
  "cancelListener e w = (snd (tryKillPid e w))\<lparr>isCancelled := True\<rparr>"

definition deliver :: "env \<Rightarrow> signal_at \<Rightarrow> world \<Rightarrow> world" where
  "deliver e pt w = (if signal e = pt then cancelListener e w else w)"

text \<open>
  The first part of \<open>exec\<close>, up to the write of the lock file. It throws when the
  log file argument is missing or empty, when \<open>xvfb-run\<close> is needed and not found,
  and when the spawned child has no pid (a pid of 0 fails the test \<open>!processId\<close> as
  well). After the spawn it reports the process through \<open>onPid\<close>. When the directory
  of the lock file exists and the lock file is accessible, \<open>tryKillPid\<close> is called and
  a warning names the pid it returns. Then the pid of the new process is written.
\<close>

definition exec_launch :: "env \<Rightarrow> UnityCommand \<Rightarrow> world \<Rightarrow> (error + nat \<times> string) \<times> world" where
  "exec_launch e command w =
     (case getArgumentValue ''-logFile'' (args command) of
        Inl err \<Rightarrow> (Inl err, w)
      | Inr logPath \<Rightarrow>
          if logPath = [] then (Inl (Error ''Log file path not specified in command arguments''), w)
          else
            (let xvfb = (platform e = ''linux'' \<and> ''-nographics'' \<notin> set (args command));
                 w0 = (if xvfb then deliver e AtWhich w else w)
             in if xvfb \<and> which_xvfb e = None
                then (Inl (Error ''Unable to locate executable file: xvfb-run''), w0)
                else
                  (case spawn_pid e of
                     None \<Rightarrow> (Inl (Error ''Failed to start Unity process!''), w0)
                   | Some processId \<Rightarrow>
                       if processId = 0 then (Inl (Error ''Failed to start Unity process!''), w0)
                       else
                         (let w1 = w0\<lparr>trace := trace w0 @ [Spawned processId],
                                      unityProcInfo := Some \<lparr>name = editorPath command,
                                        pid = Num (int processId), ppid = Num (int (self_pid e))\<rparr>\<rparr>;
                              w2 = say Debug (''Unity process started with pid: '' @ string_of_nat processId) w1;
                              w3 = (if \<not> pid_dir w2 then w2\<lparr>pid_dir := True\<rparr>
                                    else
                                      (let w' = deliver e AtAccess w2 in
                                       case pid_file w' of
                                         Content text \<Rightarrow>
                                           (let r = tryKillPid e w' in
                                            if truthy (fst r)
                                            then say Warning (''Killed existing Unity process with pid: ''
                                                                @ show_jsnum (the (fst r))) (snd r)
                                            else snd r)
                                       | _ \<Rightarrow> w'))
                          in if pid_file w3 = Inaccessible then (Inl (Error ''EACCES''), w3)
                             else (Inr (processId, logPath),
                                   w3\<lparr>pid_file := Content (string_of_nat processId),
                                      trace := trace w3 @ [LockWritten (string_of_nat processId)]\<rparr>)))))"

text \<open>
  The wait for the log file to appear has no bound: it looks again and again, and
  does not return when the file never appears.
\<close>

partial_function (option) wait_for_log :: "(nat \<Rightarrow> bool) \<Rightarrow> nat \<Rightarrow> nat option" where
  "wait_for_log ex i = (if ex i then Some i else wait_for_log ex (i + 1))"

text \<open>
  The second part of \<open>exec\<close>: the wait for the log file, the tailer, and the end of
  the process. A signal is handled during the wait for the log file only when that
  wait sleeps at least once. The listeners for \<open>exit\<close> and \<open>error\<close> are registered
  after the wait: the exit code is \<open>code ?? 1\<close>, an \<open>error\<close> event rejects, and a
  process that never ends, or whose event was emitted before the listeners were
  registered, leaves \<open>exec\<close> waiting for ever, with the tailer running. The closing
  wait for the log file to be released is bounded by its timeout and changes neither
  the result nor the lock file; it is left out.
\<close>

definition emit :: "nat list list \<Rightarrow> world \<Rightarrow> world" where
  "emit chunks w = w\<lparr>trace := trace w @ map Stdout chunks\<rparr>"

definition exec_wait :: "env \<Rightarrow> world \<Rightarrow> int outcome \<times> world" where
  "exec_wait e w =
     (case wait_for_log (log_exists e) 0 of
        None \<Rightarrow> (Hangs, deliver e WhileWaiting w)
      | Some k \<Rightarrow>
          (let w1 = (if 0 < k then deliver e WhileWaiting w else w);
               w2 = deliver e WhileTailing w1
           in case proc_end e of
                NeverEnds \<Rightarrow> (Hangs, emit (written (tail_loop tail_start (schedule e))) w2)
              | Unheard \<Rightarrow> (Hangs, emit (written (tail_loop tail_start (schedule e))) w2)
              | ProcError m \<Rightarrow> (Throws (Error m), emit (written (tailLog tail_start (schedule e))) w2)
              | Exit code \<Rightarrow>
                  (Returns (case code of None \<Rightarrow> 1 | Some c \<Rightarrow> c),
                   emit (written (tailLog tail_start (schedule e))) w2)))"

definition exec :: "env \<Rightarrow> UnityCommand \<Rightarrow> world \<Rightarrow> int outcome \<times> world" where
  "exec e command w =
     (case exec_launch e command w of
        (Inl err, w') \<Rightarrow> (Throws err, w')
      | (Inr started, w') \<Rightarrow> exec_wait e w')"

subsection \<open>\<open>ExecUnity\<close>\<close>

text \<open>
  \<open>ExecUnity\<close> runs \<open>exec\<close>; what \<open>exec\<close> throws is logged and turned into exit code 1.
  In the \<open>finally\<close>, unless \<open>isCancelled\<close> is set, the lock file is removed with
  \<open>tryKillPid\<close>, the children left by the process are reaped, and an exit code other
  than 0 is thrown as an error.
\<close>

definition ExecUnity_start :: "UnityCommand \<Rightarrow> world \<Rightarrow> world" where
  "ExecUnity_start command w =
     say Info (''[command]'' @ editorPath command) (w\<lparr>isCancelled := False, unityProcInfo := None\<rparr>)"

definition ExecUnity :: "env \<Rightarrow> UnityCommand \<Rightarrow> world \<Rightarrow> unit outcome \<times> world" where
  "ExecUnity e command w =
     (let r = exec e command (ExecUnity_start command w)
      in case fst r of
           Hangs \<Rightarrow> (Hangs, snd r)
         | res \<Rightarrow>
            (let exitCode = (case res of Returns c \<Rightarrow> c | _ \<Rightarrow> 1);
                 w1 = (case res of Throws err \<Rightarrow> say Failure ''Unity execution failed'' (snd r) | _ \<Rightarrow> snd r)
             in if \<not> isCancelled w1 then
                  (let k = tryKillPid e w1;
                       w2 = (case unityProcInfo (snd k) of
                               None \<Rightarrow> snd k
                             | Some info \<Rightarrow>
                                 cleanupProcessOrphans e info
                                   (if truthy (fst k) \<and> fst k \<noteq> Some (pid info)
                                    then say Warning (''Killed process with pid '' @ show_jsnum (the (fst k))
                                           @ '' but expected pid '' @ show_jsnum (pid info)) (snd k)
                                    else snd k))
                   in if exitCode \<noteq> 0
                      then (Throws (Error (''Unity failed with exit code '' @ string_of_int exitCode)), w2)
                      else (Returns (), w2))
                else (Returns (), w1)))"

subsection \<open>Reading the record, and concrete inputs\<close>

text \<open>
  \<open>failures\<close> are the messages passed to \<open>core.error\<close>, \<open>kills\<close> the pids for which a
  signal was attempted, and \<open>appended\<close> the bytes that a schedule of the tailer appends
  to the log file.
\<close>

definition failures :: "event list \<Rightarrow> string list" where
  "failures tr = concat (map (\<lambda>ev. case ev of Logged Failure m \<Rightarrow> [m] | _ \<Rightarrow> []) tr)"

definition kills :: "event list \<Rightarrow> int list" where
  "kills tr = concat (map (\<lambda>ev. case ev of KillSent i \<Rightarrow> [i] | _ \<Rightarrow> []) tr)"

text \<open>
  \<open>reap_pids parent procs\<close> are the pids of the listed processes whose parent is
  \<open>parent\<close> and for which \<open>process.kill\<close> reaches the system, in the order of the list.
\<close>

definition reap_pids :: "ProcInfo \<Rightarrow> ProcInfo list \<Rightarrow> int list" where
  "reap_pids parent procs =
     concat (map (\<lambda>p. if js_eq (ppid p) (pid parent) then
                         (case pid p of NaN \<Rightarrow> []
                          | Num i \<Rightarrow> if i < - 2147483648 \<or> 2147483647 < i then [] else [i])
                       else []) procs)"


definition system_name :: "string \<Rightarrow> bool" where
  "system_name nm =
     (\<exists>sysName\<in>set systemProcessNames. str_includes (toLowerCase nm) (toLowerCase sysName))"

definition demo_listing :: string where
  "demo_listing =
     ''  PID  PPID COMMAND\<newline>    1     0 systemd\<newline> 4242   100 Unity\<newline>'' @
     '' 5000  4242 UnityShaderCompiler\<newline> 5001  4242 dbus-daemon\<newline>garbage line\<newline>'' @
     '' 5002 4242 bee_backend\<newline>''"

definition demo_env :: env where
  "demo_env =
     \<lparr>platform = ''linux'', which_xvfb = Some ''/usr/bin/xvfb-run'', spawn_pid = Some 4242,
      self_pid = 100,
      kill_result = (\<lambda>i. if i = 777 then Some ''ESRCH'' else if i = 5000 then Some ''EPERM'' else None),
      ps_output = Some demo_listing, Number = parseInt, log_exists = (\<lambda>n. 3 \<le> n),
      schedule = [Append ''ab'', Poll, PollThrows, Append ''cd'', Poll, Append ''e''],
      proc_end = Exit (Some 2), signal = NoSignal\<rparr>"

definition pair_listing :: string where
  "pair_listing =
     ''  PID  PPID COMMAND\<newline> 5000  4242 UnityShaderCompiler\<newline> 5001  4242 dbus-daemon\<newline>''"

definition demo_world :: world where
  "demo_world =
     \<lparr>pid_dir = True, pid_file = Content ''777'', trace = [], isCancelled = False,
      unityProcInfo = None\<rparr>"

definition pair_env :: env where
  "pair_env = demo_env\<lparr>ps_output := Some pair_listing\<rparr>"

definition failed_listing_env :: env where
  "failed_listing_env = demo_env\<lparr>ps_output := None\<rparr>"

definition early_signal_env :: env where
  "early_signal_env = demo_env\<lparr>signal := AtAccess\<rparr>"

definition waiting_signal_env :: env where
  "waiting_signal_env = demo_env\<lparr>signal := WhileWaiting, proc_end := Unheard\<rparr>"

definition no_lock_world :: world where
  "no_lock_world = demo_world\<lparr>pid_file := Absent\<rparr>"





definition demo_command :: UnityCommand where
  "demo_command = \<lparr>editorPath = ''/opt/Unity'', args = [''-batchmode'', ''-logFile'', ''u.log'']\<rparr>"

definition demo_parent :: ProcInfo where
  "demo_parent = \<lparr>name = ''/opt/Unity'', pid = Num 4242, ppid = Num 100\<rparr>"

section \<open>Properties of the retrying supervisor\<close>

subsection \<open>Trimming a line keeps the crash texts\<close>

lemma dropWhile_keeps:
  assumes "x \<noteq> []" "\<not> P (hd x)"
  shows "\<exists>p'. dropWhile P (p @ x @ q) = p' @ x @ q"
proof (cases "\<forall>c\<in>set p. P c")
  case True
  from assms have "dropWhile P (x @ q) = x @ q" by (cases x) auto
  with True have "dropWhile P (p @ x @ q) = [] @ x @ q" by (simp add: dropWhile_append)
  then show ?thesis by blast
next
  case False
  then have "dropWhile P (p @ x @ q) = dropWhile P p @ x @ q" by (auto simp: dropWhile_append)
  then show ?thesis by blast
qed

lemma sublist_trim: "sublist (trim s) s"
proof -
  have "prefix (rev (dropWhile is_space (rev (dropWhile is_space s)))) (dropWhile is_space s)"
    by (metis suffix_dropWhile suffix_to_prefix rev_rev_ident)
  moreover have "suffix (dropWhile is_space s) s" by (rule suffix_dropWhile)
  ultimately show ?thesis unfolding trim_def
    by (meson prefix_imp_sublist suffix_imp_sublist sublist_order.order_trans)
qed

lemma includes_trim:
  assumes "x \<noteq> []" "\<not> is_space (hd x)" "\<not> is_space (last x)"
  shows "str_includes (trim s) x = str_includes s x"
proof
  assume "str_includes (trim s) x"
  then show "str_includes s x" unfolding str_includes_def
    using sublist_trim sublist_order.order_trans by blast
next
  assume "str_includes s x"
  then obtain p q where s: "s = p @ x @ q" unfolding str_includes_def sublist_def by blast
  obtain p' where 1: "dropWhile is_space s = p' @ x @ q"
    using dropWhile_keeps[of x is_space p q] assms(1,2) s by blast
  have rx: "rev x \<noteq> []" "\<not> is_space (hd (rev x))" using assms by (auto simp: hd_rev)
  obtain q' where 2: "dropWhile is_space (rev q @ rev x @ rev p') = q' @ rev x @ rev p'"
    using dropWhile_keeps[of "rev x" is_space "rev q" "rev p'"] rx by blast
  have "trim s = p' @ x @ rev q'" unfolding trim_def 1 using 2 by simp
  then show "str_includes (trim s) x" unfolding str_includes_def sublist_def by blast
qed

lemma errline_iff: "errline data flaky = (flaky \<or> str_includes data fp_overflow \<or> str_includes data fp_oom)"
proof -
  have a: "str_includes (trim data) fp_overflow = str_includes data fp_overflow"
    by (rule includes_trim) (simp_all add: fp_overflow_def is_space_def)
  have b: "str_includes (trim data) fp_oom = str_includes data fp_oom"
    by (rule includes_trim) (simp_all add: fp_oom_def is_space_def)
  have c: "trim data = [] \<Longrightarrow> \<not> str_includes (trim data) fp_overflow \<and> \<not> str_includes (trim data) fp_oom"
    by (simp add: str_includes_def fp_overflow_def fp_oom_def)
  show ?thesis using a b c unfolding errline_def Let_def by auto
qed

lemma foldl_errline: "foldl (\<lambda>flaky data. errline data flaky) b ls =
   (b \<or> (\<exists>l\<in>set ls. str_includes l fp_overflow \<or> str_includes l fp_oom))"
  by (induction ls arbitrary: b) (auto simp: errline_iff)

lemma scan_errlines_iff:
  "scan_errlines ls = (\<exists>l\<in>set ls. str_includes l fp_overflow \<or> str_includes l fp_oom)"
  by (simp add: scan_errlines_def foldl_errline)


lemma retry_from:
  assumes lp: "getLogFilePath argv = Inr lp"
  shows "k \<le> 26 \<Longrightarrow> \<forall>n\<in>{k..26}. flaky_attempt (env n) \<Longrightarrow>
     ExecUnity_retry argv env k =
       (Inl (Error ''Unity crashed in a flaky manner too many times''), [k..<27])"
proof (induction "26 - k" arbitrary: k)
  case 0
  then have k: "k = 26" by simp
  from 0 k have "flaky_attempt (env 26)" by simp
  then obtain out err code where "env 26 = Exited out err code False" "scan_errlines err"
    by (cases "env 26") auto
  then show ?case using lp k by simp
next
  case (Suc d)
  then have k: "k \<le> 25" by simp
  from Suc.prems have "flaky_attempt (env k)" by simp
  then obtain out err code where e: "env k = Exited out err code False" "scan_errlines err"
    by (cases "env k") auto
  have "ExecUnity_retry argv env (k + 1) =
       (Inl (Error ''Unity crashed in a flaky manner too many times''), [k + 1..<27])"
    using Suc by (intro Suc.hyps) auto
  then show ?case using lp k e by (simp add: upt_conv_Cons)
qed

lemma launches_prefix: "k \<le> 26 \<Longrightarrow> prefix (snd (ExecUnity_retry argv env k)) [k..<27]"
proof (induction argv env k rule: ExecUnity_retry.induct)
  case (1 argv env tryCount)
  from "1.prems" show ?case
    apply (subst ExecUnity_retry.simps)
    using "1.IH"
    apply (auto split: sum.splits attempt.splits simp: upt_conv_Cons Let_def simp del: ExecUnity_retry.simps)
    done
qed

lemma launches_flaky: "n \<in> set (butlast (snd (ExecUnity_retry argv env k))) \<Longrightarrow> flaky_attempt (env n)"
proof (induction argv env k rule: ExecUnity_retry.induct)
  case (1 argv env tryCount)
  from "1.prems" show ?case
    apply (subst (asm) ExecUnity_retry.simps)
    using "1.IH"
    apply (auto split: sum.splits attempt.splits if_splits simp: Let_def simp del: ExecUnity_retry.simps)
    done
qed

subsection \<open>The retry bound\<close>

text \<open>
  Claim C2, as the code has it. When every launch ends in a flaky crash (the error
  stream shows one of the two texts and the run is not cancelled), the supervisor
  launches the process 26 times, with \<open>tryCount\<close> running through 1, 2, ..., 26, and
  then fails with the error of exhausted retries; the guard \<open>tryCount \<le> 25\<close> is
  tested before the increment, so the launch with counter 25 is followed by one more.
  For every environment the counters of the launches are an initial part of
  1, 2, ..., 26: the counter starts at 1, grows by one from launch to launch, never
  decreases and never passes 26; and every launch but the last one ended in a flaky
  crash, so the counter is only raised after such a crash.
\<close>

theorem retry_bound_all_flaky:
  "(getLogFilePath argv = Inr lp \<and> (\<forall>n\<in>{1..26}. flaky_attempt (env n)) \<longrightarrow>
      ExecUnity_retry argv env 1 =
        (Inl (Error ''Unity crashed in a flaky manner too many times''), [1..<27]))
   \<and> prefix (snd (ExecUnity_retry argv env 1)) [1..<27]
   \<and> (\<forall>n\<in>set (butlast (snd (ExecUnity_retry argv env 1))). flaky_attempt (env n))"
proof (intro conjI impI ballI)
  assume "getLogFilePath argv = Inr lp \<and> (\<forall>n\<in>{1..26}. flaky_attempt (env n))"
  then show "ExecUnity_retry argv env 1 =
        (Inl (Error ''Unity crashed in a flaky manner too many times''), [1..<27])"
    using retry_from [of argv lp 1 env] by simp
next
  show "prefix (snd (ExecUnity_retry argv env 1)) [1..<27]"
    by (rule launches_prefix) simp
next
  fix n assume "n \<in> set (butlast (snd (ExecUnity_retry argv env 1)))"
  then show "flaky_attempt (env n)" by (rule launches_flaky)
qed

text \<open>
  Witness for C2: the environment in which every launch prints the overflow text on
  the error stream and exits with code 1.
\<close>

theorem retry_bound_all_flaky_witness:
  "getLogFilePath [''-logFile'', ''u.log''] = Inr (Some ''u.log'')
   \<and> flaky_attempt (always_flaky 1) \<and> flaky_attempt (always_flaky 26)
   \<and> ExecUnity_retry [''-logFile'', ''u.log''] always_flaky 1 =
        (Inl (Error ''Unity crashed in a flaky manner too many times''), [1..<27])"
proof -
  have lp: "getLogFilePath [''-logFile'', ''u.log''] = Inr (Some ''u.log'')"
    by code_simp
  have fl: "flaky_attempt (always_flaky n)" for n
    by (simp add: always_flaky_def scan_errlines_iff str_includes_def)
  from lp fl retry_bound_all_flaky [of "[''-logFile'', ''u.log'']" "Some ''u.log''" always_flaky]
  show ?thesis by blast
qed

text \<open>
  Counterexample to C2 as stated (exactly 25 launches, the counter within 1..25):
  with every launch a flaky crash the process is launched 26 times and the last
  launch is made with the counter at 26.
\<close>

theorem retry_bound_counterexample:
  "length (snd (ExecUnity_retry [''-logFile'', ''u.log''] always_flaky 1)) = 26
   \<and> last (snd (ExecUnity_retry [''-logFile'', ''u.log''] always_flaky 1)) = 26"
  by code_simp

subsection \<open>Exit code 0\<close>

text \<open>
  Claim C3, as the code has it. A launch that exits with code 0 and whose error stream
  shows neither crash text ends the call with success, after this one launch and with
  no error, whatever the standard output shows (a crash text there is ignored) and
  whether or not the run was cancelled.
\<close>

theorem exit_zero_clean:
  assumes "getLogFilePath argv = Inr lp"
    and "env n = Exited out err 0 c"
    and "\<forall>l\<in>set err. \<not> str_includes l fp_overflow \<and> \<not> str_includes l fp_oom"
  shows "ExecUnity_retry argv env n = (Inr (), [n])"
  using assms by (simp add: scan_errlines_iff)

text \<open>
  Witness for C3: exit code 0, the overflow text on the standard output, a harmless
  line on the error stream.
\<close>

theorem exit_zero_clean_witness:
  "getLogFilePath [''-logFile'', ''u.log''] = Inr (Some ''u.log'')
   \<and> clean_exit 1 = Exited [fp_overflow, ''done''] [''warning''] 0 False
   \<and> \<not> str_includes ''warning'' fp_overflow \<and> \<not> str_includes ''warning'' fp_oom
   \<and> ExecUnity_retry [''-logFile'', ''u.log''] clean_exit 1 = (Inr (), [1])"
proof -
  have lp: "getLogFilePath [''-logFile'', ''u.log''] = Inr (Some ''u.log'')"
    by code_simp
  have e: "clean_exit 1 = Exited [fp_overflow, ''done''] [''warning''] 0 False"
    by (simp add: clean_exit_def)
  have a: "\<not> str_includes ''warning'' fp_overflow" by code_simp
  have b: "\<not> str_includes ''warning'' fp_oom" by code_simp
  from a b have h: "\<forall>l\<in>set [''warning'']. \<not> str_includes l fp_overflow \<and> \<not> str_includes l fp_oom"
    by simp
  from exit_zero_clean [of "[''-logFile'', ''u.log'']" "Some ''u.log''" clean_exit 1
      "[fp_overflow, ''done'']" "[''warning'']" False] lp e h a b
  show ?thesis by simp
qed

text \<open>
  Counterexample to C3 as stated (exit code 0 is a success whatever was streamed):
  the flag \<open>flaky\<close> is tested before the exit code. A launch that exits with code 0
  after a crash text on its error stream is launched again, and when every launch
  does so the call ends with the error of exhausted retries.
\<close>

theorem exit_zero_counterexample:
  "ExecUnity_retry [''-logFile'', ''u.log''] crash_text_exit_zero 1 = (Inr (), [1, 2])
   \<and> fst (ExecUnity_retry [''-logFile'', ''u.log''] crash_text_always_exit_zero 1) =
        Inl (Error ''Unity crashed in a flaky manner too many times'')"
  by code_simp

subsection \<open>Exit codes other than 0\<close>




section \<open>Properties of the utilities and of the supervisor\<close>

subsection \<open>Decimal texts are read back\<close>

lemma digit_char: 
  assumes "d < 10"
  shows "digit_val (digit_char d) = d \<and> is_digit (digit_char d)
   \<and> \<not> is_space (digit_char d) \<and> digit_char d \<noteq> CHR ''-'' \<and> digit_char d \<noteq> CHR ''+''
   \<and> digit_char d \<noteq> CHR ''x'' \<and> digit_char d \<noteq> CHR ''X''"
proof -
  from assms have "d \<in> {0,1,2,3,4,5,6,7,8,9}" by auto
  then show ?thesis
    by (auto simp: digit_val_def is_digit_def is_space_def digit_char_def)
qed

lemma string_of_nat_digits: "\<forall>c\<in>set (string_of_nat n). digit_val c < 10 \<and> c \<noteq> CHR ''x'' \<and> c \<noteq> CHR ''X''"
proof (induction n rule: string_of_nat.induct)
  case (1 n)
  show ?case
  proof (cases "n < 10")
    case True
    then show ?thesis using digit_char[of n] by (subst string_of_nat.simps) simp
  next
    case False
    then show ?thesis using 1 digit_char[of "n mod 10"]
      by (subst string_of_nat.simps) simp
  qed
qed

lemma string_of_nat_value: "foldl (\<lambda>a c. a * 10 + digit_val c) 0 (string_of_nat n) = n"
proof (induction n rule: string_of_nat.induct)
  case (1 n)
  show ?case
  proof (cases "n < 10")
    case True
    then show ?thesis using digit_char[of n] by (subst string_of_nat.simps) simp
  next
    case False
    then show ?thesis using 1 digit_char[of "n mod 10"]
      by (subst string_of_nat.simps) simp
  qed
qed

lemma string_of_nat_hd: "string_of_nat n \<noteq> [] \<and> \<not> is_space (hd (string_of_nat n))
   \<and> hd (string_of_nat n) \<noteq> CHR ''-'' \<and> hd (string_of_nat n) \<noteq> CHR ''+''"
proof (induction n rule: string_of_nat.induct)
  case (1 n)
  show ?case
  proof (cases "n < 10")
    case True
    then show ?thesis using digit_char[of n] string_of_nat.simps[of n] by simp
  next
    case False
    then show ?thesis using 1 string_of_nat.simps[of n] by simp
  qed
qed

lemma parseInt_string_of_nat: "parseInt (string_of_nat n) = Num (int n)"
proof -
  obtain c cs where s: "string_of_nat n = c # cs"
    using string_of_nat_hd[of n] by (cases "string_of_nat n") auto
  have c: "\<not> is_space c" "c \<noteq> CHR ''-''" "c \<noteq> CHR ''+''"
    using string_of_nat_hd[of n] s by auto
  have d: "\<forall>x\<in>set (c # cs). digit_val x < 10 \<and> x \<noteq> CHR ''x'' \<and> x \<noteq> CHR ''X''"
    using string_of_nat_digits[of n] s by simp
  have 1: "dropWhile is_space (c # cs) = c # cs" using c by simp
  have 2: "(take 1 (c # cs) = ''-'') = False" "(take 1 (c # cs) = ''+'') = False"
    using c by simp_all
  have 3: "(take 2 (c # cs) = ''0x'') = False" "(take 2 (c # cs) = ''0X'') = False"
    using d by (cases cs; auto)+
  have 4: "takeWhile (\<lambda>c. digit_val c < 10) (c # cs) = c # cs"
    using d by (simp add: takeWhile_eq_all_conv)
  have 5: "foldl (\<lambda>a c. a * 10 + digit_val c) 0 (c # cs) = n"
    using string_of_nat_value[of n] s by simp
  have 6: "(c # cs = []) = False" by simp
  show ?thesis
    by (simp only: parseInt_def Let_def s 1 2 3 4 5 6 if_False simp_thms)
qed

subsection \<open>The log file argument\<close>

lemma indexOf_notin: "v \<notin> set xs \<Longrightarrow> indexOf xs v = - 1"
  by (induction xs) auto

lemma indexOf_nonneg: "v \<in> set xs \<Longrightarrow> 0 \<le> indexOf xs v"
  by (induction xs) (auto simp: Let_def)

lemma indexOf_first: "v \<notin> set pre \<Longrightarrow> indexOf (pre @ v # rest) v = int (length pre)"
  by (induction pre) (auto simp: Let_def)

lemma getArgumentValue_absent:
  "v \<notin> set xs \<Longrightarrow> getArgumentValue v xs = Inl (Error (''Missing '' @ v @ '' argument''))"
  by (simp add: getArgumentValue_def indexOf_notin)

lemma getArgumentValue_last:
  "v \<notin> set pre \<Longrightarrow> getArgumentValue v (pre @ [v]) = Inl (Error (''Missing '' @ v @ '' argument''))"
  by (simp add: getArgumentValue_def indexOf_first)

lemma getArgumentValue_found:
  "v \<notin> set pre \<Longrightarrow> getArgumentValue v (pre @ v # x # post) = Inr x"
  by (simp add: getArgumentValue_def indexOf_first nth_append nat_add_distrib)

text \<open>
  Claim C9. When \<open>-logFile\<close> does not occur among the arguments, or occurs only as
  their last element, \<open>getArgumentValue\<close> throws the error
  \<open>Missing -logFile argument\<close>, and \<open>exec\<close> throws it with the world as it was:
  nothing has been spawned, written or logged. When the flag (at its first
  occurrence) is followed by a value, that value is returned unchanged.
\<close>

theorem missing_logFile_argument:
  "((''-logFile'' \<notin> set (args command)
       \<or> (\<exists>pre. args command = pre @ [''-logFile''] \<and> ''-logFile'' \<notin> set pre)) \<longrightarrow>
      getArgumentValue ''-logFile'' (args command) = Inl (Error ''Missing -logFile argument'')
      \<and> exec e command w = (Throws (Error ''Missing -logFile argument''), w))
   \<and> (args command = pre' @ ''-logFile'' # x # post \<and> ''-logFile'' \<notin> set pre' \<longrightarrow>
      getArgumentValue ''-logFile'' (args command) = Inr x)"
proof (intro conjI impI)
  assume a: "''-logFile'' \<notin> set (args command)
       \<or> (\<exists>pre. args command = pre @ [''-logFile''] \<and> ''-logFile'' \<notin> set pre)"
  then have g: "getArgumentValue ''-logFile'' (args command) = Inl (Error (''Missing '' @ ''-logFile'' @ '' argument''))"
    using getArgumentValue_absent getArgumentValue_last by metis
  then show g': "getArgumentValue ''-logFile'' (args command) = Inl (Error ''Missing -logFile argument'')"
    by simp
  show "exec e command w = (Throws (Error ''Missing -logFile argument''), w)"
    using g' by (simp add: exec_def exec_launch_def)
next
  assume "args command = pre' @ ''-logFile'' # x # post \<and> ''-logFile'' \<notin> set pre'"
  then show "getArgumentValue ''-logFile'' (args command) = Inr x"
    by (simp add: getArgumentValue_found)
qed

text \<open>
  Witness for C9: the flag as the last argument, and the flag followed by a path.
\<close>

theorem missing_logFile_argument_witness:
  "exec demo_env (demo_command\<lparr>args := [''-batchmode'', ''-logFile'']\<rparr>) demo_world =
     (Throws (Error ''Missing -logFile argument''), demo_world)
   \<and> getArgumentValue ''-logFile'' (args demo_command) = Inr ''u.log''"
proof -
  have a: "args (demo_command\<lparr>args := [''-batchmode'', ''-logFile'']\<rparr>) = [''-batchmode''] @ [''-logFile'']
     \<and> ''-logFile'' \<notin> set [''-batchmode'']"
    by simp
  have b: "args demo_command = [''-batchmode''] @ ''-logFile'' # ''u.log'' # []
     \<and> ''-logFile'' \<notin> set [''-batchmode'']"
    by (simp add: demo_command_def)
  from a have 1: "exec demo_env (demo_command\<lparr>args := [''-batchmode'', ''-logFile'']\<rparr>) demo_world =
     (Throws (Error ''Missing -logFile argument''), demo_world)"
    using missing_logFile_argument [where command = "demo_command\<lparr>args := [''-batchmode'', ''-logFile'']\<rparr>"
        and e = demo_env and w = demo_world] by blast
  from b have 2: "getArgumentValue ''-logFile'' (args demo_command) = Inr ''u.log''"
    using missing_logFile_argument [where command = demo_command and pre' = "[''-batchmode'']"
        and x = "''u.log''" and post = "[]"] by blast
  from 1 2 show ?thesis by simp
qed

subsection \<open>Killing the recorded process and releasing the lock\<close>

lemma failures_append [simp]: "failures (a @ b) = failures a @ failures b"
  by (simp add: failures_def)

lemma kills_append [simp]: "kills (a @ b) = kills a @ kills b"
  by (simp add: kills_def)

lemma failures_simps [simp]:
  "failures [] = []"
  "failures (Logged Failure m # tr) = m # failures tr"
  "failures (Logged Debug m # tr) = failures tr"
  "failures (Logged Info m # tr) = failures tr"
  "failures (Logged Warning m # tr) = failures tr"
  "failures (KillSent i # tr) = failures tr"
  "failures (Spawned n # tr) = failures tr"
  "failures (LockRemoved # tr) = failures tr"
  "failures (LockWritten s # tr) = failures tr"
  "failures (StartGroup s # tr) = failures tr"
  "failures (EndGroup # tr) = failures tr"
  "failures (Stdout t # tr) = failures tr"
  by (simp_all add: failures_def)

lemma kills_simps [simp]:
  "kills [] = []"
  "kills (KillSent i # tr) = i # kills tr"
  "kills (Logged l m # tr) = kills tr"
  "kills (Spawned n # tr) = kills tr"
  "kills (LockRemoved # tr) = kills tr"
  "kills (LockWritten s # tr) = kills tr"
  "kills (StartGroup s # tr) = kills tr"
  "kills (EndGroup # tr) = kills tr"
  "kills (Stdout t # tr) = kills tr"
  by (simp_all add: kills_def)


lemma tryKillPid_Absent:
  "pid_file w = Absent \<Longrightarrow>
   tryKillPid e w = (None, say Debug ''PID file does not exist'' w)"
  by (simp add: tryKillPid_def tryKillPid_body_def)

lemma tryKillPid_Inaccessible:
  "pid_file w = Inaccessible \<Longrightarrow> tryKillPid e w = (None, w)"
  by (simp add: tryKillPid_def tryKillPid_body_def)


lemma tryKillPid_trace_ext: "\<exists>evs. trace (snd (tryKillPid e w)) = trace w @ evs"
  by (cases "pid_file w")
     (auto simp add: tryKillPid_def tryKillPid_body_def process_kill_def say_def Let_def
      split: jsnum.splits option.splits)




subsection \<open>A launch over a stale lock\<close>
lemma tryKillPid_stale:
  assumes "pid_file w = Content (string_of_nat stale)" "stale \<le> 2147483647"
  shows "tryKillPid e w =
    (Some (Num (int stale)),
     w\<lparr>pid_file := Absent,
       trace := trace w @ [Logged Debug (''Killing process pid: '' @ string_of_int (int stale)), KillSent (int stale)]
          @ (case kill_result e (int stale) of
               None \<Rightarrow> []
             | Some c \<Rightarrow> if c \<noteq> ''ENOENT'' \<and> c \<noteq> ''ESRCH''
                        then [Logged Failure (''Failed to kill process: '' @ c)] else [])
          @ [LockRemoved]\<rparr>)"
  using assms
  by (simp add: tryKillPid_def tryKillPid_body_def process_kill_def say_def Let_def
      parseInt_string_of_nat split: option.splits)

lemma exec_launch_stale_aux:
  assumes f: "pid_file w = Content (string_of_nat stale)" and d: "pid_dir w" and s: "stale \<le> 2147483647"
    and l: "exec_launch e command w = (Inr (p, lp), w')"
  shows "pid_file w' = Content (string_of_nat p)
     \<and> take (length (trace w)) (trace w') = trace w
     \<and> last (trace w') = LockWritten (string_of_nat p)
     \<and> KillSent (int stale) \<in> set (butlast (drop (length (trace w)) (trace w')))
     \<and> (\<forall>t. LockWritten t \<notin> set (butlast (drop (length (trace w)) (trace w'))))
     \<and> spawn_pid e = Some p"
proof (cases "platform e = ''linux'' \<and> ''-nographics'' \<notin> set (args command) \<and> signal e = AtWhich")
  case True
  with l f d s show ?thesis
    apply (simp add: exec_launch_def deliver_def cancelListener_def Let_def say_def tryKillPid_Absent
               tryKillPid_stale split: sum.splits if_splits option.splits)
    apply (auto simp: say_def butlast_append)
    done
next
  case False
  then have w0: "(if platform e = ''linux'' \<and> ''-nographics'' \<notin> set (args command) then deliver e AtWhich w else w) = w"
    by (auto simp: deliver_def)
  show ?thesis
  proof (cases "signal e = AtAccess")
    case True
    with l f d s w0 show ?thesis
      apply (simp add: exec_launch_def Let_def say_def deliver_def cancelListener_def tryKillPid_stale 
                 split: sum.splits if_splits option.splits)
      apply (auto simp: say_def butlast_append)
      done
  next
    case F2: False
    with l f d s w0 show ?thesis
      apply (simp add: exec_launch_def Let_def say_def deliver_def tryKillPid_stale
                split: sum.splits if_splits option.splits)
      apply (auto simp: say_def butlast_append)
      done
  qed
qed

text \<open>
  Claim C7. When \<open>exec\<close> gets as far as a spawned process with pid \<open>p\<close> while the
  lock file holds the decimal text of a stale pid (a 32-bit integer; the directory of
  the lock file exists, since the file does), then after the launch the lock file
  holds the decimal text of \<open>p\<close>, the pid of the process just spawned, and in the
  record of the launch a signal for the stale pid was attempted before the text of
  \<open>p\<close> was written, this write being the only one and the last thing the launch
  did. This holds wherever a termination signal is handled.
\<close>

theorem launch_replaces_stale_lock:
  assumes f: "pid_file w = Content (string_of_nat stale)" and d: "pid_dir w" and s: "stale \<le> 2147483647"
    and l: "exec_launch e command w = (Inr (p, lp), w')"
  shows "spawn_pid e = Some p \<and> pid_file w' = Content (string_of_nat p)
     \<and> (\<exists>pre post. trace w' = trace w @ pre @ KillSent (int stale) # post @ [LockWritten (string_of_nat p)]
           \<and> (\<forall>t. LockWritten t \<notin> set (pre @ post)))"
proof -
  from exec_launch_stale_aux[OF assms] have a: "pid_file w' = Content (string_of_nat p)"
    and b: "take (length (trace w)) (trace w') = trace w"
    and c: "last (trace w') = LockWritten (string_of_nat p)"
    and m: "KillSent (int stale) \<in> set (butlast (drop (length (trace w)) (trace w')))"
    and n: "\<forall>t. LockWritten t \<notin> set (butlast (drop (length (trace w)) (trace w')))"
    and sp: "spawn_pid e = Some p"
    by simp_all
  define new where "new = drop (length (trace w)) (trace w')"
  have tw: "trace w' = trace w @ new" unfolding new_def using b by (metis append_take_drop_id)
  from m have ne: "new \<noteq> []" unfolding new_def by auto
  then have ln: "last new = LockWritten (string_of_nat p)" using c tw by simp
  from m obtain pre post where bl: "butlast new = pre @ KillSent (int stale) # post"
    unfolding new_def by (meson split_list)
  have "new = butlast new @ [last new]" using ne by simp
  then have "trace w' = trace w @ pre @ KillSent (int stale) # post @ [LockWritten (string_of_nat p)]"
    using tw bl ln by simp
  moreover have "\<forall>t. LockWritten t \<notin> set (pre @ post)"
    using n bl unfolding new_def by auto
  ultimately show ?thesis using a sp by blast
qed

text \<open>
  Witness for C7: the lock file holds \<open>777\<close> and the spawned process has pid 4242.
\<close>

theorem launch_replaces_stale_lock_witness:
  "pid_file demo_world = Content (string_of_nat 777) \<and> pid_dir demo_world
   \<and> fst (exec_launch demo_env demo_command demo_world) = Inr (4242, ''u.log'')
   \<and> pid_file (snd (exec_launch demo_env demo_command demo_world)) = Content ''4242''"
proof -
  have s: "string_of_nat 777 = ''777''" by code_simp
  have s': "string_of_nat 4242 = ''4242''" by code_simp
  have a: "pid_file demo_world = Content (string_of_nat 777)" by (simp add: demo_world_def s)
  have b: "pid_dir demo_world" by (simp add: demo_world_def)
  have c: "(777::nat) \<le> 2147483647" by simp
  have g: "getArgumentValue ''-logFile'' [''-batchmode'', ''-logFile'', ''u.log''] = Inr ''u.log''"
    by code_simp
  have pi: "parseInt ''777'' = Num 777" by code_simp
  have f: "fst (exec_launch demo_env demo_command demo_world) = Inr (4242, ''u.log'')"
    by (simp add: exec_launch_def demo_env_def demo_command_def demo_world_def g Let_def say_def
        deliver_def tryKillPid_def tryKillPid_body_def pi process_kill_def s')
  then have d: "exec_launch demo_env demo_command demo_world =
      (Inr (4242, ''u.log''), snd (exec_launch demo_env demo_command demo_world))"
    by (metis prod.collapse)
  from launch_replaces_stale_lock [OF a b c d] a b f s' show ?thesis by simp
qed

subsection \<open>Listing processes and reaping orphans\<close>

lemma filterSystem_iff: "filterSystem nm = (\<not> system_name nm)"
proof -
  have ne: "\<forall>s\<in>set systemProcessNames. toLowerCase s \<noteq> []"
    by (simp add: systemProcessNames_def toLowerCase_def)
  have "nm = [] \<Longrightarrow> \<not> system_name nm"
    using ne by (auto simp: system_name_def str_includes_def toLowerCase_def)
  then show ?thesis
    by (auto simp: filterSystem_def system_name_def list_ex_iff)
qed

lemma collect_fst:
  "fst (collect e ls w) = filter (\<lambda>p. filterSystem (name p)) (List.map_filter (parse_line e) ls)"
  by (induction ls arbitrary: w) (auto simp: Let_def List.map_filter_simps split: option.splits)

lemma collect_snd:
  "snd (collect e ls w) = w\<lparr>trace := trace w @ map (Logged Debug) ls\<rparr>"
  by (induction ls arbitrary: w) (auto simp: Let_def say_def split: option.splits)

lemma parse_line_kill_result [simp]: "parse_line (e\<lparr>kill_result := k\<rparr>) l = parse_line e l"
  by (simp add: parse_line_def parse_win_def parse_unix_def Let_def split: option.splits prod.splits)

lemma collect_kill_result [simp]: "collect (e\<lparr>kill_result := k\<rparr>) ls w = collect e ls w"
  by (induction ls arbitrary: w) (simp_all add: Let_def)

lemma listProcesses_kill_result [simp]: "listProcesses (e\<lparr>kill_result := k\<rparr>) w = listProcesses e w"
  by (cases "ps_output e") (simp_all add: listProcesses_def listProcesses_body_def listed_lines_def Let_def)

lemma listProcesses_failed:
  "ps_output e = None \<Longrightarrow> fst (listProcesses e w) = []
     \<and> failures (trace (snd (listProcesses e w))) = failures (trace w) @ [''Failed to list processes'']"
  by (simp add: listProcesses_def listProcesses_body_def Let_def say_def)

lemma listProcesses_ok:
  "ps_output e = Some out \<Longrightarrow>
     fst (listProcesses e w) =
       filter (\<lambda>p. filterSystem (name p)) (List.map_filter (parse_line e) (listed_lines e out))
     \<and> failures (trace (snd (listProcesses e w))) = failures (trace w)
     \<and> kills (trace (snd (listProcesses e w))) = kills (trace w)"
proof -
  have f: "failures (map (Logged Debug) ls) = []" for ls by (induction ls) auto
  have k: "kills (map (Logged Debug) ls) = []" for ls by (induction ls) auto
  assume "ps_output e = Some out"
  then show ?thesis
    by (simp add: listProcesses_def listProcesses_body_def Let_def say_def collect_fst collect_snd f k)
qed

lemma listProcesses_kills: "kills (trace (snd (listProcesses e w))) = kills (trace w)"
proof (cases "ps_output e")
  case None
  then show ?thesis by (simp add: listProcesses_def listProcesses_body_def Let_def say_def)
next
  case (Some out)
  then show ?thesis using listProcesses_ok by blast
qed

lemma reap_one_kills:
  "kills (trace (reap_one e parent p w)) = kills (trace w) @ reap_pids parent [p]"
  by (simp add: reap_one_def reap_pids_def process_kill_def say_def Let_def
      split: jsnum.splits option.splits)

lemma reap_pids_Cons: "reap_pids parent (p # ps) = reap_pids parent [p] @ reap_pids parent ps"
  by (simp add: reap_pids_def)

lemma reap_all_kills:
  "kills (trace (foldl (\<lambda>w' proc. reap_one e parent proc w') w procs)) =
     kills (trace w) @ reap_pids parent procs"
proof (induction procs arbitrary: w)
  case Nil
  then show ?case by (simp add: reap_pids_def)
next
  case (Cons p ps)
  show ?case using Cons[of "reap_one e parent p w"] reap_pids_Cons[of parent p ps]
    by (simp add: reap_one_kills)
qed

lemma cleanup_kills:
  "kills (trace (cleanupProcessOrphans e parent w)) =
     kills (trace w) @ reap_pids parent (fst (listProcesses e w))"
  by (simp add: cleanupProcessOrphans_def Let_def say_def listProcesses_kills reap_all_kills reap_pids_def)

lemma reap_pids_mem:
  "i \<in> set (reap_pids parent procs) \<Longrightarrow>
     \<exists>p\<in>set procs. pid p = Num i \<and> js_eq (ppid p) (pid parent)"
  by (auto simp: reap_pids_def split: if_splits jsnum.splits)


text \<open>
  Claim C8. Every pid for which \<open>cleanupProcessOrphans\<close> attempts a signal belongs to
  a line of the listing that has the format, whose parent pid is equal to the pid of
  the given parent, and whose name includes none of the system process names, upper
  and lower case being the same.
\<close>

theorem reaper_targets:
  assumes "kills (trace (cleanupProcessOrphans e parent w)) = kills (trace w) @ ks" and "i \<in> set ks"
  shows "\<exists>out l proc. ps_output e = Some out \<and> l \<in> set (listed_lines e out)
           \<and> parse_line e l = Some proc \<and> pid proc = Num i
           \<and> js_eq (ppid proc) (pid parent) \<and> \<not> system_name (name proc)"
proof -
  from assms(1) have ks: "ks = reap_pids parent (fst (listProcesses e w))"
    by (simp add: cleanup_kills)
  with assms(2) obtain proc where p: "proc \<in> set (fst (listProcesses e w))" "pid proc = Num i"
      "js_eq (ppid proc) (pid parent)"
    using reap_pids_mem by blast
  then obtain out where o: "ps_output e = Some out"
    using listProcesses_failed[of e w] by (cases "ps_output e") auto
  with p(1) have "proc \<in> set (filter (\<lambda>p. filterSystem (name p)) (List.map_filter (parse_line e) (listed_lines e out)))"
    using listProcesses_ok[OF o, of w] by simp
  then obtain l where "l \<in> set (listed_lines e out)" "parse_line e l = Some proc" "\<not> system_name (name proc)"
    by (auto simp: filterSystem_iff List.map_filter_def)
  with o p show ?thesis by blast
qed


text \<open>
  Witness for C8: the listing has two children of process 4242, named
  \<open>UnityShaderCompiler\<close> and \<open>dbus-daemon\<close>; only the first is sent a signal.
\<close>

theorem reaper_targets_witness:
  "kills (trace (cleanupProcessOrphans pair_env demo_parent demo_world)) = kills (trace demo_world) @ [5000]
   \<and> system_name ''dbus-daemon'' \<and> \<not> system_name ''UnityShaderCompiler''
   \<and> (\<exists>out l proc. ps_output pair_env = Some out \<and> l \<in> set (listed_lines pair_env out)
           \<and> parse_line pair_env l = Some proc \<and> pid proc = Num 5000
           \<and> js_eq (ppid proc) (pid demo_parent) \<and> \<not> system_name (name proc))"
proof -
  have l: "fst (listProcesses pair_env demo_world) =
      [\<lparr>name = ''UnityShaderCompiler'', pid = Num 5000, ppid = Num 4242\<rparr>]"
    by code_simp
  have k: "kills (trace (cleanupProcessOrphans pair_env demo_parent demo_world)) = kills (trace demo_world) @ [5000]"
    by (simp add: cleanup_kills l reap_pids_def demo_parent_def)
  have m: "(5000::int) \<in> set [5000]" by simp
  have a: "\<not> filterSystem ''dbus-daemon''" by code_simp
  have b: "filterSystem ''UnityShaderCompiler''" by code_simp
  from reaper_targets [OF k m] k a b show ?thesis by (simp add: filterSystem_iff)
qed

text \<open>
  Claim C10. \<open>listProcesses\<close> returns a list in every case: the empty list, after a
  message to \<open>core.error\<close>, when the listing command fails, and otherwise the records
  of the lines that have the format and pass the filter on system names, the other
  lines being skipped. \<open>cleanupProcessOrphans\<close> returns in every case: a kill that
  throws is followed by a log entry and the loop goes on, so that the signals
  attempted are those attempted when every kill succeeds; the lock file is not
  touched.
\<close>

theorem listing_and_reaping_complete:
  "(ps_output e = None \<longrightarrow>
      fst (listProcesses e w) = []
      \<and> failures (trace (snd (listProcesses e w))) = failures (trace w) @ [''Failed to list processes''])
   \<and> (ps_output e = Some out \<longrightarrow>
      fst (listProcesses e w) =
        filter (\<lambda>p. filterSystem (name p)) (List.map_filter (parse_line e) (listed_lines e out)))
   \<and> kills (trace (cleanupProcessOrphans e parent w)) =
       kills (trace (cleanupProcessOrphans (e\<lparr>kill_result := (\<lambda>i. None)\<rparr>) parent w))
   \<and> (js_eq (ppid proc) (pid parent) \<and> pid proc = Num i \<and> - 2147483648 \<le> i \<and> i \<le> 2147483647
        \<and> kill_result e i = Some c \<longrightarrow>
      (\<exists>lvl msg. trace (reap_one e parent proc w) = trace w @ [KillSent i, Logged lvl msg]))
   \<and> pid_file (cleanupProcessOrphans e parent w) = pid_file w"
proof -
  have 1: "ps_output e = None \<longrightarrow>
      fst (listProcesses e w) = []
      \<and> failures (trace (snd (listProcesses e w))) = failures (trace w) @ [''Failed to list processes'']"
    using listProcesses_failed by blast
  have 2: "ps_output e = Some out \<longrightarrow>
      fst (listProcesses e w) =
        filter (\<lambda>p. filterSystem (name p)) (List.map_filter (parse_line e) (listed_lines e out))"
    using listProcesses_ok by blast
  have 3: "kills (trace (cleanupProcessOrphans e parent w)) =
       kills (trace (cleanupProcessOrphans (e\<lparr>kill_result := (\<lambda>i. None)\<rparr>) parent w))"
    by (simp add: cleanup_kills)
  have 4: "js_eq (ppid proc) (pid parent) \<and> pid proc = Num i \<and> - 2147483648 \<le> i \<and> i \<le> 2147483647
        \<and> kill_result e i = Some c \<longrightarrow>
      (\<exists>lvl msg. trace (reap_one e parent proc w) = trace w @ [KillSent i, Logged lvl msg])"
    by (simp add: reap_one_def process_kill_def say_def Let_def)
  have r: "pid_file (reap_one e parent p v) = pid_file v" for p v
    by (simp add: reap_one_def process_kill_def say_def Let_def split: jsnum.splits option.splits)
  have f: "pid_file (foldl (\<lambda>w' proc. reap_one e parent proc w') v ps) = pid_file v" for ps v
    by (induction ps arbitrary: v) (simp_all add: r)
  have lp: "pid_file (snd (listProcesses e w)) = pid_file w"
    by (cases "ps_output e")
       (simp_all add: listProcesses_def listProcesses_body_def Let_def say_def collect_snd)
  have 5: "pid_file (cleanupProcessOrphans e parent w) = pid_file w"
    by (simp add: cleanupProcessOrphans_def Let_def say_def f lp)
  from 1 2 3 4 5 show ?thesis by blast
qed

text \<open>
  Witness for C10: a listing command that fails; and a listing with a line that has
  not the format, where the kill of process 5000 is refused with \<open>EPERM\<close> and the
  next child, 5002, is still sent its signal.
\<close>

theorem listing_and_reaping_complete_witness:
  "ps_output failed_listing_env = None
   \<and> fst (listProcesses failed_listing_env demo_world) = []
   \<and> ps_output demo_env = Some demo_listing
   \<and> fst (listProcesses demo_env demo_world) =
       [\<lparr>name = ''Unity'', pid = Num 4242, ppid = Num 100\<rparr>,
        \<lparr>name = ''UnityShaderCompiler'', pid = Num 5000, ppid = Num 4242\<rparr>,
        \<lparr>name = ''bee_backend'', pid = Num 5002, ppid = Num 4242\<rparr>]
   \<and> kill_result demo_env 5000 = Some ''EPERM''
   \<and> kills (trace (cleanupProcessOrphans demo_env demo_parent demo_world)) = [5000, 5002]"
proof -
  have a: "ps_output failed_listing_env = None" by (simp add: failed_listing_env_def)
  have b: "ps_output demo_env = Some demo_listing" by (simp add: demo_env_def)
  have c: "filter (\<lambda>p. filterSystem (name p))
             (List.map_filter (parse_line demo_env) (listed_lines demo_env demo_listing)) =
       [\<lparr>name = ''Unity'', pid = Num 4242, ppid = Num 100\<rparr>,
        \<lparr>name = ''UnityShaderCompiler'', pid = Num 5000, ppid = Num 4242\<rparr>,
        \<lparr>name = ''bee_backend'', pid = Num 5002, ppid = Num 4242\<rparr>]"
    by code_simp
  have d: "kill_result demo_env 5000 = Some ''EPERM''" by (simp add: demo_env_def)
  from listing_and_reaping_complete [of failed_listing_env demo_world] a
  have 1: "fst (listProcesses failed_listing_env demo_world) = []" by blast
  from listing_and_reaping_complete [of demo_env demo_world demo_listing] b c
  have 2: "fst (listProcesses demo_env demo_world) =
       [\<lparr>name = ''Unity'', pid = Num 4242, ppid = Num 100\<rparr>,
        \<lparr>name = ''UnityShaderCompiler'', pid = Num 5000, ppid = Num 4242\<rparr>,
        \<lparr>name = ''bee_backend'', pid = Num 5002, ppid = Num 4242\<rparr>]"
    by simp
  have t: "trace demo_world = []" by (simp add: demo_world_def)
  have 3: "kills (trace (cleanupProcessOrphans demo_env demo_parent demo_world)) = [5000, 5002]"
    by (simp add: cleanup_kills 2 reap_pids_def demo_parent_def t)
  from a b d 1 2 3 show ?thesis by simp
qed

subsection \<open>The log tailer\<close>



















subsection \<open>Cancellation\<close>

lemma kills_Stdout [simp]: "kills (map Stdout cs) = []"
  by (induction cs) auto

lemma demo_getarg: "getArgumentValue ''-logFile'' [''-batchmode'', ''-logFile'', ''u.log''] = Inr ''u.log''"
  by code_simp

lemma demo_pid_text: "string_of_nat 4242 = ''4242''"
  by code_simp

lemma demo_wait: "wait_for_log (\<lambda>n. 3 \<le> n) 0 = Some 3"
  by (simp add: wait_for_log.simps)

lemma demo_stale: "parseInt ''777'' = Num 777"
  by code_simp

lemma demo_pid_read: "parseInt ''4242'' = Num 4242"
  by code_simp

text \<open>
  Claim C5, at two runs in which the code does not do what the claim says. In the
  first the directory of the lock file exists, there is no lock file, and the signal
  is handled while \<open>exec\<close> awaits \<open>fs.promises.access\<close>, before the pid is written:
  the listener finds no lock file and sets \<open>isCancelled\<close>, \<open>exec\<close> then writes the pid
  4242, the process runs on and ends with exit code 2, and \<open>ExecUnity\<close> returns
  without an error with the lock file still in place and no signal ever attempted.
  In the second the signal is handled while \<open>exec\<close> waits for the log file: the
  listener kills process 4242 and removes the lock file, the process ends before the
  listeners for its end are registered, and \<open>ExecUnity\<close> never returns.
\<close>

theorem early_signal_leaves_lock:
  "signal early_signal_env = AtAccess
   \<and> pid_dir no_lock_world \<and> pid_file no_lock_world = Absent
   \<and> isCancelled (snd (ExecUnity early_signal_env demo_command no_lock_world))
   \<and> fst (ExecUnity early_signal_env demo_command no_lock_world) = Returns ()
   \<and> pid_file (snd (ExecUnity early_signal_env demo_command no_lock_world)) = Content ''4242''
   \<and> kills (trace (snd (ExecUnity early_signal_env demo_command no_lock_world))) = []
   \<and> signal waiting_signal_env = WhileWaiting
   \<and> proc_end waiting_signal_env = Unheard
   \<and> isCancelled (snd (ExecUnity waiting_signal_env demo_command demo_world))
   \<and> kills (trace (snd (ExecUnity waiting_signal_env demo_command demo_world))) = [777, 4242]
   \<and> fst (ExecUnity waiting_signal_env demo_command demo_world) = Hangs"
  by (simp add: ExecUnity_def ExecUnity_start_def exec_def exec_launch_def exec_wait_def
      early_signal_env_def waiting_signal_env_def demo_env_def demo_command_def no_lock_world_def
      demo_world_def demo_getarg demo_pid_text demo_wait demo_stale demo_pid_read Let_def say_def
      deliver_def cancelListener_def tryKillPid_def tryKillPid_body_def process_kill_def emit_def)

end
